theory Spec2Isabelle
  imports Main "HOL-Library.Word"
begin

section \<open>Values of the provable-code library used by the contract\<close>

text \<open>
  \<^verbatim>\<open>src/src/CrowdFunding.ts\<close> is a zkApp. The model runs a method as its code runs, in
  program order: an \<^verbatim>\<open>assert...\<close> that fails throws, and so does the range check of an
  arithmetic operation. A method that throws builds no transaction; the ledger applies the
  account update of a method that returns.

  \<^verbatim>\<open>UInt32\<close> and \<^verbatim>\<open>UInt64\<close> are unsigned integers of 32 and 64 bits. Their \<^verbatim>\<open>add\<close>, \<^verbatim>\<open>sub\<close>
  and \<^verbatim>\<open>mul\<close> do not wrap around: the result is range-checked, so overflow and underflow
  throw. \<^verbatim>\<open>div\<close> is the floor of the quotient.
\<close>

datatype PublicKey = PublicKey nat bool

type_synonym UInt32 = "32 word"
type_synonym UInt64 = "64 word"

datatype error =
    AssertionFailed string
  | Overflow
  | Underflow
  | DivisionByZero

datatype Event =
    DeployEvent PublicKey UInt32 UInt64 UInt64 UInt32
  | ContributedEvent PublicKey UInt64 UInt32
  | WithdrawnEvent PublicKey UInt64 UInt32

text \<open>
  The two transfers of the contract: \<^verbatim>\<open>senderUpdate.send({ to: this.address, amount })\<close> moves
  \<open>amount\<close> from the caller's account to the campaign's, \<^verbatim>\<open>this.send({ to: sender, amount })\<close>
  moves it from the campaign's account to the caller's.
\<close>

datatype Transfer =
    ToContract PublicKey UInt64
  | FromContract PublicKey UInt64

section \<open>On-chain state, ledger view and account update\<close>

text \<open>The five \<^verbatim>\<open>@state\<close> fields of \<^verbatim>\<open>class CrowdFunding\<close>.\<close>

record CrowdFunding =
  investor :: PublicKey
  deadline :: UInt32
  minimumInvestment :: UInt64
  hardCap :: UInt64
  withdrawnCnt :: UInt32

text \<open>
  What a method reads from the ledger: \<^verbatim>\<open>this.sender\<close> (authenticated by
  \<^verbatim>\<open>getAndRequireSignature\<close>), \<^verbatim>\<open>this.network.blockchainLength\<close> and
  \<^verbatim>\<open>this.account.balance\<close>. Every read is \<^verbatim>\<open>getAndRequireEquals\<close>, so all reads of one call
  see the same snapshot.
\<close>

record Chain =
  sender :: PublicKey
  blockchainLength :: UInt32
  balance :: UInt64

text \<open>
  What a method has done so far: the pending writes of the state fields (\<^verbatim>\<open>State.set\<close>), the
  transfers issued and the events emitted, the latter two in program order.
\<close>

record AccountUpdate =
  setInvestor :: "PublicKey option"
  setDeadline :: "UInt32 option"
  setMinimumInvestment :: "UInt64 option"
  setHardCap :: "UInt64 option"
  setWithdrawnCnt :: "UInt32 option"
  transfers :: "Transfer list"
  emitted :: "Event list"

definition noUpdate :: AccountUpdate where
  "noUpdate = \<lparr> setInvestor = None, setDeadline = None, setMinimumInvestment = None,
                setHardCap = None, setWithdrawnCnt = None, transfers = [], emitted = [] \<rparr>"

text \<open>
  A piece of method code takes the account update built so far and returns its value, or the
  check that threw, together with the account update at that point.
\<close>

type_synonym 'a prov = "AccountUpdate \<Rightarrow> (error + 'a) \<times> AccountUpdate"

definition pure :: "'a \<Rightarrow> 'a prov" where
  "pure v u = (Inr v, u)"

definition reject :: "error \<Rightarrow> 'a prov" where
  "reject e u = (Inl e, u)"

definition andThen :: "'a prov \<Rightarrow> ('a \<Rightarrow> 'b prov) \<Rightarrow> 'b prov" where
  "andThen m f u = (case m u of (Inl e, u') \<Rightarrow> (Inl e, u') | (Inr v, u') \<Rightarrow> f v u')"

text \<open>
  A call of an \<^verbatim>\<open>async\<close> function that has no \<^verbatim>\<open>await\<close> inside, made without \<^verbatim>\<open>await\<close> and
  with the promise it returns dropped: the body runs at once, to its end or to its first
  throw; a throw rejects the promise, which nobody awaits, and the caller goes on with what
  the body has done up to there.
\<close>

definition unawaited :: "'a prov \<Rightarrow> unit prov" where
  "unawaited m u = (Inr (), snd (m u))"

subsection \<open>Assertions\<close>

definition assertTrue :: "bool \<Rightarrow> string \<Rightarrow> unit prov" where
  "assertTrue b msg = (if b then pure () else reject (AssertionFailed msg))"

definition assertFalse :: "bool \<Rightarrow> string \<Rightarrow> unit prov" where
  "assertFalse b msg = (if b then reject (AssertionFailed msg) else pure ())"

definition assertLessThan :: "'a::len word \<Rightarrow> 'a word \<Rightarrow> string \<Rightarrow> unit prov" where
  "assertLessThan a b msg = assertTrue (a < b) msg"

definition assertLessThanOrEqual :: "'a::len word \<Rightarrow> 'a word \<Rightarrow> string \<Rightarrow> unit prov" where
  "assertLessThanOrEqual a b msg = assertTrue (a \<le> b) msg"

definition assertGreaterThan :: "'a::len word \<Rightarrow> 'a word \<Rightarrow> string \<Rightarrow> unit prov" where
  "assertGreaterThan a b msg = assertTrue (b < a) msg"

definition assertGreaterThanOrEqual :: "'a::len word \<Rightarrow> 'a word \<Rightarrow> string \<Rightarrow> unit prov" where
  "assertGreaterThanOrEqual a b msg = assertTrue (b \<le> a) msg"

subsection \<open>Checked arithmetic\<close>

definition UInt_add :: "'a::len word \<Rightarrow> 'a word \<Rightarrow> 'a word prov" where
  "UInt_add a b =
     (if unat a + unat b < 2 ^ LENGTH('a) then pure (a + b) else reject Overflow)"

definition UInt_sub :: "'a::len word \<Rightarrow> 'a word \<Rightarrow> 'a word prov" where
  "UInt_sub a b = (if b \<le> a then pure (a - b) else reject Underflow)"

definition UInt_mul :: "'a::len word \<Rightarrow> 'a word \<Rightarrow> 'a word prov" where
  "UInt_mul a b =
     (if unat a * unat b < 2 ^ LENGTH('a) then pure (a * b) else reject Overflow)"

definition UInt_div :: "'a::len word \<Rightarrow> 'a word \<Rightarrow> 'a word prov" where
  "UInt_div a b = (if b = 0 then reject DivisionByZero else pure (a div b))"

subsection \<open>Effects\<close>

definition send :: "Transfer \<Rightarrow> unit prov" where
  "send t u = (Inr (), u\<lparr> transfers := transfers u @ [t] \<rparr>)"

definition emitEvent :: "Event \<Rightarrow> unit prov" where
  "emitEvent e u = (Inr (), u\<lparr> emitted := emitted u @ [e] \<rparr>)"

definition investor_set :: "PublicKey \<Rightarrow> unit prov" where
  "investor_set v u = (Inr (), u\<lparr> setInvestor := Some v \<rparr>)"

definition deadline_set :: "UInt32 \<Rightarrow> unit prov" where
  "deadline_set v u = (Inr (), u\<lparr> setDeadline := Some v \<rparr>)"

definition minimumInvestment_set :: "UInt64 \<Rightarrow> unit prov" where
  "minimumInvestment_set v u = (Inr (), u\<lparr> setMinimumInvestment := Some v \<rparr>)"

definition hardCap_set :: "UInt64 \<Rightarrow> unit prov" where
  "hardCap_set v u = (Inr (), u\<lparr> setHardCap := Some v \<rparr>)"

definition withdrawnCnt_set :: "UInt32 \<Rightarrow> unit prov" where
  "withdrawnCnt_set v u = (Inr (), u\<lparr> setWithdrawnCnt := Some v \<rparr>)"

section \<open>The contract\<close>

text \<open>
  \<^verbatim>\<open>deploy\<close>: the permission settings of the host are not part of the model. The caller
  becomes the investor.
\<close>

definition deploy :: "Chain \<Rightarrow> UInt32 \<Rightarrow> UInt64 \<Rightarrow> UInt64 \<Rightarrow> unit prov" where
  "deploy c deadline' minimumInvestment' hardCap' =
     andThen (investor_set (sender c)) (\<lambda>_.
     andThen (deadline_set deadline') (\<lambda>_.
     andThen (minimumInvestment_set minimumInvestment') (\<lambda>_.
     andThen (hardCap_set hardCap') (\<lambda>_.
     andThen (withdrawnCnt_set 0) (\<lambda>_.
     emitEvent (DeployEvent (sender c) deadline' minimumInvestment' hardCap'
                  (blockchainLength c)))))))"

text \<open>
  \<^verbatim>\<open>ensureContribution\<close> is declared \<^verbatim>\<open>async\<close>, and \<^verbatim>\<open>contribute\<close> calls it as
  \<^verbatim>\<open>this.ensureContribution(sender, amount);\<close> without \<^verbatim>\<open>await\<close>. The helper itself fails
  with the reason of the first assertion that does not hold; \<^verbatim>\<open>contribute\<close> does not see
  that failure and goes on to \<^verbatim>\<open>calculateAmount\<close>, the transfer and the event.
  \<^verbatim>\<open>ensureWithdraw\<close> is not \<^verbatim>\<open>async\<close>: its assertions throw from \<^verbatim>\<open>withdraw\<close>.
\<close>

definition ensureContribution :: "CrowdFunding \<Rightarrow> Chain \<Rightarrow> PublicKey \<Rightarrow> UInt64 \<Rightarrow> unit prov" where
  "ensureContribution this c sender' amount =
     andThen (assertLessThanOrEqual (blockchainLength c) (deadline this) ''Deadline reached'') (\<lambda>_.
     andThen (assertFalse (sender' = investor this) ''Investor cannot contribute'') (\<lambda>_.
     andThen (assertGreaterThanOrEqual amount (minimumInvestment this)
                ''Minimum investment not met'') (\<lambda>_.
     assertLessThan (balance c) (hardCap this) ''HardCap reached'')))"

definition calculateAmount :: "CrowdFunding \<Rightarrow> Chain \<Rightarrow> UInt64 \<Rightarrow> UInt64 prov" where
  "calculateAmount this c amount =
     andThen (UInt_sub (hardCap this) (balance c)) (\<lambda>remaining.
     pure (if amount \<le> remaining then amount else remaining))"

definition contribute :: "CrowdFunding \<Rightarrow> Chain \<Rightarrow> UInt64 \<Rightarrow> unit prov" where
  "contribute this c amount =
     andThen (unawaited (ensureContribution this c (sender c) amount)) (\<lambda>_.
     andThen (calculateAmount this c amount) (\<lambda>canContributeAmount.
     andThen (send (ToContract (sender c) canContributeAmount)) (\<lambda>_.
     emitEvent (ContributedEvent (sender c) canContributeAmount (blockchainLength c)))))"

definition incrementWithdrawal :: "CrowdFunding \<Rightarrow> unit prov" where
  "incrementWithdrawal this =
     andThen (UInt_add (withdrawnCnt this) 1) (\<lambda>v. withdrawnCnt_set v)"

definition ensureWithdraw :: "CrowdFunding \<Rightarrow> Chain \<Rightarrow> UInt64 prov" where
  "ensureWithdraw this c =
     andThen (assertTrue (sender c = investor this) ''Only investor can withdraw'') (\<lambda>_.
     andThen (assertGreaterThan (balance c) 0 ''No balance to withdraw'') (\<lambda>_.
     andThen (assertGreaterThanOrEqual (blockchainLength c) (deadline this)
                ''Deadline reached'') (\<lambda>_.
     andThen (UInt_sub (blockchainLength c) (deadline this)) (\<lambda>blocksSinceDeadline.
     let isInitialWithdrawal = (withdrawnCnt this = 0) in
     andThen (UInt_mul (withdrawnCnt this) 200) (\<lambda>withdrawalInterval.
     let isSubsequentWithdrawal = (withdrawalInterval \<le> blocksSinceDeadline) in
     andThen (assertTrue (isInitialWithdrawal \<or> isSubsequentWithdrawal)
                ''Withdrawal not allowed'') (\<lambda>_.
     andThen (incrementWithdrawal this) (\<lambda>_.
     pure (if isInitialWithdrawal then 20 else 10))))))))"

definition withdraw :: "CrowdFunding \<Rightarrow> Chain \<Rightarrow> unit prov" where
  "withdraw this c =
     andThen (ensureWithdraw this c) (\<lambda>withdrawPercentage.
     andThen (UInt_mul (hardCap this) withdrawPercentage) (\<lambda>product.
     andThen (UInt_div product 100) (\<lambda>amountToWithdraw.
     andThen (send (FromContract (sender c) amountToWithdraw)) (\<lambda>_.
     emitEvent (WithdrawnEvent (sender c) amountToWithdraw (blockchainLength c))))))"

section \<open>What the ledger does with a method call\<close>

text \<open>
  A call starts from the empty account update. The ledger applies the update of a call that
  returns and nothing of a call that throws.
\<close>

definition succeeds :: "unit prov \<Rightarrow> bool" where
  "succeeds m = (fst (m noUpdate) = Inr ())"

definition rejected :: "unit prov \<Rightarrow> error \<Rightarrow> bool" where
  "rejected m e = (fst (m noUpdate) = Inl e)"

definition committed :: "unit prov \<Rightarrow> AccountUpdate" where
  "committed m = (case m noUpdate of (Inl e, u) \<Rightarrow> noUpdate | (Inr v, u) \<Rightarrow> u)"

definition writeState :: "CrowdFunding \<Rightarrow> AccountUpdate \<Rightarrow> CrowdFunding" where
  "writeState this u =
     \<lparr> investor = (case setInvestor u of None \<Rightarrow> investor this | Some v \<Rightarrow> v),
       deadline = (case setDeadline u of None \<Rightarrow> deadline this | Some v \<Rightarrow> v),
       minimumInvestment =
         (case setMinimumInvestment u of None \<Rightarrow> minimumInvestment this | Some v \<Rightarrow> v),
       hardCap = (case setHardCap u of None \<Rightarrow> hardCap this | Some v \<Rightarrow> v),
       withdrawnCnt = (case setWithdrawnCnt u of None \<Rightarrow> withdrawnCnt this | Some v \<Rightarrow> v) \<rparr>"

text \<open>The change of the campaign account's balance that a list of transfers amounts to.\<close>

fun balanceChange :: "Transfer list \<Rightarrow> int" where
  "balanceChange [] = 0"
| "balanceChange (ToContract _ a # ts) = uint a + balanceChange ts"
| "balanceChange (FromContract _ a # ts) = balanceChange ts - uint a"

section \<open>Sequences of calls\<close>

text \<open>
  After deployment the contract is driven by \<^verbatim>\<open>contribute\<close> and \<^verbatim>\<open>withdraw\<close> calls. Each call
  comes with the ledger view it is checked against; caller, height and balance are the
  ledger's and may be anything. A transaction that the ledger refuses for a reason of its own
  (an account that cannot pay a transfer, a fee, a nonce) changes nothing: in a sequence it
  is a call that is not there.
\<close>

datatype Call = Contribute UInt64 | Withdraw

fun invoke :: "CrowdFunding \<Rightarrow> Chain \<Rightarrow> Call \<Rightarrow> unit prov" where
  "invoke this c (Contribute amount) = contribute this c amount"
| "invoke this c Withdraw = withdraw this c"

definition exec :: "CrowdFunding \<Rightarrow> Chain \<times> Call \<Rightarrow> CrowdFunding" where
  "exec this tx = writeState this (committed (invoke this (fst tx) (snd tx)))"

fun successfulWithdraws :: "CrowdFunding \<Rightarrow> (Chain \<times> Call) list \<Rightarrow> nat" where
  "successfulWithdraws this [] = 0"
| "successfulWithdraws this (tx # txs) =
     (if snd tx = Withdraw \<and> succeeds (withdraw this (fst tx)) then 1 else 0)
       + successfulWithdraws (exec this tx) txs"

section \<open>Example campaign\<close>

text \<open>A campaign with hard cap 1000, minimum investment 10 and deadline 100.\<close>

definition scenario :: CrowdFunding where
  "scenario = \<lparr> investor = PublicKey 1 False, deadline = 100, minimumInvestment = 10,
                hardCap = 1000, withdrawnCnt = 0 \<rparr>"

definition backer :: PublicKey where
  "backer = PublicKey 2 True"

text \<open>The same campaign with a hard cap of \<open>10 ^ 18\<close>: twenty times it is above \<open>2 ^ 64\<close>.\<close>

definition largeCap :: CrowdFunding where
  "largeCap = \<lparr> investor = PublicKey 1 False, deadline = 100, minimumInvestment = 10,
                hardCap = 1000000000000000000, withdrawnCnt = 0 \<rparr>"

text \<open>
  Three contributions (the third one with the cap reached) and three withdrawals (the
  second one too early).
\<close>

definition history :: "(Chain \<times> Call) list" where
  "history =
     [(\<lparr> sender = backer, blockchainLength = 50, balance = 0 \<rparr>, Contribute 600),
      (\<lparr> sender = backer, blockchainLength = 60, balance = 600 \<rparr>, Contribute 500),
      (\<lparr> sender = backer, blockchainLength = 70, balance = 1000 \<rparr>, Contribute 20),
      (\<lparr> sender = PublicKey 1 False, blockchainLength = 150, balance = 1000 \<rparr>, Withdraw),
      (\<lparr> sender = PublicKey 1 False, blockchainLength = 200, balance = 800 \<rparr>, Withdraw),
      (\<lparr> sender = PublicKey 1 False, blockchainLength = 350, balance = 800 \<rparr>, Withdraw)]"

section \<open>Running the two methods\<close>

lemmas prov_defs = pure_def reject_def andThen_def assertTrue_def assertFalse_def
  assertLessThan_def assertLessThanOrEqual_def assertGreaterThan_def
  assertGreaterThanOrEqual_def UInt_add_def UInt_sub_def UInt_mul_def UInt_div_def
  send_def emitEvent_def withdrawnCnt_set_def

text \<open>The outcome of \<^verbatim>\<open>ensureContribution\<close>, check by check: it changes no account update.\<close>

lemma ensureContribution_eval:
  "ensureContribution this c s amount u =
     (if \<not> blockchainLength c \<le> deadline this
        then (Inl (AssertionFailed ''Deadline reached''), u)
      else if s = investor this
        then (Inl (AssertionFailed ''Investor cannot contribute''), u)
      else if \<not> minimumInvestment this \<le> amount
        then (Inl (AssertionFailed ''Minimum investment not met''), u)
      else if \<not> balance c < hardCap this
        then (Inl (AssertionFailed ''HardCap reached''), u)
      else (Inr (), u))"
  by (simp add: ensureContribution_def prov_defs)

lemma calculateAmount_eval:
  "calculateAmount this c amount u =
     (if balance c \<le> hardCap this then (Inr (min amount (hardCap this - balance c)), u)
      else (Inl Underflow, u))"
  by (simp add: calculateAmount_def prov_defs min_def)

text \<open>
  The outcome of \<^verbatim>\<open>contribute\<close>: none of the four checks of the helper decides it, the
  subtraction of \<^verbatim>\<open>calculateAmount\<close> does.
\<close>

lemma contribute_eval:
  "contribute this c amount u =
     (if \<not> balance c \<le> hardCap this
        then (Inl Underflow, u)
      else (Inr (),
            u\<lparr> transfers := transfers u @
                   [ToContract (sender c) (min amount (hardCap this - balance c))],
               emitted := emitted u @
                   [ContributedEvent (sender c) (min amount (hardCap this - balance c))
                      (blockchainLength c)] \<rparr>))"
  by (simp add: contribute_def unawaited_def ensureContribution_eval calculateAmount_eval
      andThen_def send_def emitEvent_def)

text \<open>
  The outcome of \<^verbatim>\<open>withdraw\<close>. The multiplication of the hard cap by the percentage comes
  after \<^verbatim>\<open>incrementWithdrawal\<close>, so its range check fails with the write of the counter
  pending.
\<close>

lemma withdraw_eval:
  "withdraw this c u =
     (if sender c \<noteq> investor this
        then (Inl (AssertionFailed ''Only investor can withdraw''), u)
      else if \<not> 0 < balance c
        then (Inl (AssertionFailed ''No balance to withdraw''), u)
      else if \<not> deadline this \<le> blockchainLength c
        then (Inl (AssertionFailed ''Deadline reached''), u)
      else if \<not> unat (withdrawnCnt this) * 200 < 2 ^ 32
        then (Inl Overflow, u)
      else if \<not> (withdrawnCnt this = 0
                 \<or> withdrawnCnt this * 200 \<le> blockchainLength c - deadline this)
        then (Inl (AssertionFailed ''Withdrawal not allowed''), u)
      else if \<not> unat (withdrawnCnt this) + 1 < 2 ^ 32
        then (Inl Overflow, u)
      else if \<not> unat (hardCap this) * (if withdrawnCnt this = 0 then 20 else 10) < 2 ^ 64
        then (Inl Overflow, u\<lparr> setWithdrawnCnt := Some (withdrawnCnt this + 1) \<rparr>)
      else (Inr (),
            u\<lparr> setWithdrawnCnt := Some (withdrawnCnt this + 1),
               transfers := transfers u @
                   [FromContract (sender c)
                      (hardCap this * (if withdrawnCnt this = 0 then 20 else 10) div 100)],
               emitted := emitted u @
                   [WithdrawnEvent (sender c)
                      (hardCap this * (if withdrawnCnt this = 0 then 20 else 10) div 100)
                      (blockchainLength c)] \<rparr>))"
  by (simp add: withdraw_def ensureWithdraw_def incrementWithdrawal_def prov_defs Let_def)

lemma succeeds_contribute:
  "succeeds (contribute this c amount) \<longleftrightarrow> balance c \<le> hardCap this"
  by (simp add: succeeds_def contribute_eval)

lemma contribute_committed:
  "succeeds (contribute this c amount) \<Longrightarrow>
     committed (contribute this c amount) =
       noUpdate\<lparr> transfers := [ToContract (sender c) (min amount (hardCap this - balance c))],
                 emitted := [ContributedEvent (sender c) (min amount (hardCap this - balance c))
                               (blockchainLength c)] \<rparr>"
  by (simp add: succeeds_contribute) (simp add: committed_def contribute_eval noUpdate_def)

lemma unat_clamp:
  fixes amount :: "'a::len word"
  assumes "b \<le> h"
  shows "unat (min amount (h - b)) = min (unat amount) (unat h - unat b)"
proof -
  from assms have "unat (h - b) = unat h - unat b" by (rule unat_sub)
  then show ?thesis by (simp add: min_def word_le_nat_alt)
qed

section \<open>Contributions\<close>

text \<open>
  C1. A successful \<^verbatim>\<open>contribute(amount)\<close> issues exactly one transfer, from the caller to the
  campaign, of the requested amount clamped to the room left under the hard cap,
  \<open>min amount (hardCap - balance)\<close>; the balance after crediting it is the balance before
  plus that amount and is at most the hard cap; the one \<^verbatim>\<open>Contributed\<close> event carries the
  clamped amount, not the requested one.
\<close>

theorem contribute_accepts_clamped_amount:
  assumes "succeeds (contribute this c amount)"
  shows "transfers (committed (contribute this c amount)) =
           [ToContract (sender c) (min amount (hardCap this - balance c))]
       \<and> emitted (committed (contribute this c amount)) =
           [ContributedEvent (sender c) (min amount (hardCap this - balance c))
              (blockchainLength c)]
       \<and> unat (min amount (hardCap this - balance c)) =
           min (unat amount) (unat (hardCap this) - unat (balance c))
       \<and> uint (balance c) + balanceChange (transfers (committed (contribute this c amount))) =
           int (unat (balance c) + min (unat amount) (unat (hardCap this) - unat (balance c)))
       \<and> unat (balance c) + min (unat amount) (unat (hardCap this) - unat (balance c))
           \<le> unat (hardCap this)"
proof -
  from assms have room: "balance c \<le> hardCap this" by (simp add: succeeds_contribute)
  have cl: "unat (min amount (hardCap this - balance c)) =
              min (unat amount) (unat (hardCap this) - unat (balance c))"
    using room by (rule unat_clamp)
  have le: "unat (balance c) \<le> unat (hardCap this)"
    using room by (simp add: word_le_nat_alt)
  have bc: "balanceChange [ToContract (sender c) (min amount (hardCap this - balance c))] =
              int (min (unat amount) (unat (hardCap this) - unat (balance c)))"
    using cl by (simp add: uint_nat)
  show ?thesis
    using le cl bc by (simp add: contribute_committed [OF assms])
qed

theorem contribute_accepts_clamped_amount_witness:
  "succeeds (contribute scenario \<lparr> sender = backer, blockchainLength = 60, balance = 600 \<rparr> 500)
   \<and> transfers (committed (contribute scenario
        \<lparr> sender = backer, blockchainLength = 60, balance = 600 \<rparr> 500)) = [ToContract backer 400]
   \<and> emitted (committed (contribute scenario
        \<lparr> sender = backer, blockchainLength = 60, balance = 600 \<rparr> 500)) =
        [ContributedEvent backer 400 60]
   \<and> uint (600 :: UInt64) + balanceChange (transfers (committed (contribute scenario
        \<lparr> sender = backer, blockchainLength = 60, balance = 600 \<rparr> 500))) = 1000"
proof -
  have ok: "succeeds (contribute scenario
              \<lparr> sender = backer, blockchainLength = 60, balance = 600 \<rparr> 500)"
    by (simp add: succeeds_contribute scenario_def)
  show ?thesis
    using ok contribute_accepts_clamped_amount [OF ok]
    by (simp add: scenario_def)
qed

text \<open>
  C2 does not hold of the code. The four checks are in \<^verbatim>\<open>ensureContribution\<close>, which
  reports the reason of the first one that fails, but \<^verbatim>\<open>contribute\<close> drops that outcome:
  the investor contributing 600 is not rejected, and neither is a contribution after the
  deadline, one below the minimum investment, or one with the hard cap reached. Each of
  these calls succeeds.
\<close>

theorem contribute_drops_failed_checks:
  "fst (ensureContribution scenario
          \<lparr> sender = PublicKey 1 False, blockchainLength = 50, balance = 0 \<rparr>
          (PublicKey 1 False) 600 noUpdate) = Inl (AssertionFailed ''Investor cannot contribute'')
   \<and> succeeds (contribute scenario
        \<lparr> sender = PublicKey 1 False, blockchainLength = 50, balance = 0 \<rparr> 600)
   \<and> \<not> rejected (contribute scenario
        \<lparr> sender = PublicKey 1 False, blockchainLength = 50, balance = 0 \<rparr> 600)
        (AssertionFailed ''Investor cannot contribute'')
   \<and> transfers (committed (contribute scenario
        \<lparr> sender = PublicKey 1 False, blockchainLength = 50, balance = 0 \<rparr> 600)) =
        [ToContract (PublicKey 1 False) 600]
   \<and> fst (ensureContribution scenario \<lparr> sender = backer, blockchainLength = 101, balance = 0 \<rparr>
          backer 600 noUpdate) = Inl (AssertionFailed ''Deadline reached'')
   \<and> succeeds (contribute scenario \<lparr> sender = backer, blockchainLength = 101, balance = 0 \<rparr> 600)
   \<and> fst (ensureContribution scenario \<lparr> sender = backer, blockchainLength = 50, balance = 0 \<rparr>
          backer 9 noUpdate) = Inl (AssertionFailed ''Minimum investment not met'')
   \<and> succeeds (contribute scenario \<lparr> sender = backer, blockchainLength = 50, balance = 0 \<rparr> 9)
   \<and> fst (ensureContribution scenario \<lparr> sender = backer, blockchainLength = 70, balance = 1000 \<rparr>
          backer 20 noUpdate) = Inl (AssertionFailed ''HardCap reached'')
   \<and> succeeds (contribute scenario \<lparr> sender = backer, blockchainLength = 70, balance = 1000 \<rparr> 20)"
  by (simp add: ensureContribution_eval succeeds_def rejected_def committed_def contribute_eval
      noUpdate_def scenario_def backer_def)

section \<open>Withdrawals\<close>

lemma interval_check:
  fixes n h d :: UInt32
  assumes "d \<le> h" and "unat n * 200 < 2 ^ 32"
  shows "n * 200 \<le> h - d \<longleftrightarrow> unat n * 200 \<le> unat h - unat d"
proof -
  have "unat (n * 200) = unat n * 200"
    using assms(2) by (simp add: unat_word_ariths)
  moreover have "unat (h - d) = unat h - unat d"
    using assms(1) by (rule unat_sub)
  ultimately show ?thesis by (simp add: word_le_nat_alt)
qed

lemma interval_small:
  fixes n h d :: UInt32
  assumes "unat n * 200 \<le> unat h - unat d"
  shows "unat n * 200 < 2 ^ 32" and "unat n + 1 < 2 ^ 32"
proof -
  have "unat h < 2 ^ 32" using unsigned_less [of h] by simp
  with assms show "unat n * 200 < 2 ^ 32" by simp
  then show "unat n + 1 < 2 ^ 32" by simp
qed

lemma succeeds_withdraw:
  "succeeds (withdraw this c) \<longleftrightarrow>
     sender c = investor this \<and> 0 < balance c \<and> deadline this \<le> blockchainLength c \<and>
     (withdrawnCnt this = 0 \<or>
      unat (withdrawnCnt this) * 200 \<le> unat (blockchainLength c) - unat (deadline this)) \<and>
     unat (hardCap this) * (if withdrawnCnt this = 0 then 20 else 10) < 2 ^ 64"
proof (cases "deadline this \<le> blockchainLength c")
  case False
  then show ?thesis by (simp add: succeeds_def withdraw_eval)
next
  case le: True
  show ?thesis
  proof (cases "withdrawnCnt this = 0")
    case True
    then show ?thesis using le by (simp add: succeeds_def withdraw_eval)
  next
    case nz: False
    show ?thesis
    proof (cases "unat (withdrawnCnt this) * 200 < 2 ^ 32")
      case True
      then have "unat (withdrawnCnt this) + 1 < 2 ^ 32" by simp
      then show ?thesis
        using le nz True interval_check [OF le True]
        by (simp add: succeeds_def withdraw_eval)
    next
      case False
      then have "\<not> unat (withdrawnCnt this) * 200
                    \<le> unat (blockchainLength c) - unat (deadline this)"
        using interval_small(1) [of "withdrawnCnt this" "blockchainLength c" "deadline this"]
        by blast
      then show ?thesis
        using le nz False by (simp add: succeeds_def withdraw_eval)
    qed
  qed
qed

lemma withdraw_committed:
  "succeeds (withdraw this c) \<Longrightarrow>
     committed (withdraw this c) =
       noUpdate\<lparr> setWithdrawnCnt := Some (withdrawnCnt this + 1),
                 transfers := [FromContract (sender c)
                    (hardCap this * (if withdrawnCnt this = 0 then 20 else 10) div 100)],
                 emitted := [WithdrawnEvent (sender c)
                    (hardCap this * (if withdrawnCnt this = 0 then 20 else 10) div 100)
                    (blockchainLength c)] \<rparr>"
  by (simp add: succeeds_def committed_def withdraw_eval noUpdate_def split: if_splits)

lemma unat_share:
  fixes h p :: UInt64
  assumes "unat h * unat p < 2 ^ 64"
  shows "unat (h * p div 100) = unat h * unat p div 100"
proof -
  have "unat (h * p) = unat h * unat p"
    using assms by (simp add: unat_word_ariths)
  then show ?thesis by (simp add: unat_div)
qed

lemma withdrawnCnt_incremented:
  fixes n :: UInt32
  assumes "unat n + 1 < 2 ^ 32"
  shows "unat (n + 1) = unat n + 1"
  using assms by (simp add: unat_word_ariths)

lemma withdraw_counter_in_range:
  "succeeds (withdraw this c) \<Longrightarrow> unat (withdrawnCnt this) + 1 < 2 ^ 32"
  by (simp add: succeeds_def withdraw_eval split: if_splits)

lemma exec_withdraw_ok:
  "succeeds (withdraw this c) \<Longrightarrow>
     exec this (c, Withdraw) = this\<lparr> withdrawnCnt := withdrawnCnt this + 1 \<rparr>"
  by (simp add: exec_def withdraw_committed writeState_def noUpdate_def)

text \<open>
  C3, as claimed, fails: with a hard cap of \<open>10 ^ 18\<close> the investor calls \<^verbatim>\<open>withdraw\<close> after
  the deadline on a funded campaign that has never paid out. The four conditions hold, and
  the call is rejected by the range check of \<^verbatim>\<open>hardCap.mul(withdrawPercentage)\<close>.
\<close>

theorem withdraw_succeeds_iff_counterexample:
  "sender \<lparr> sender = PublicKey 1 False, blockchainLength = 150, balance = 600 \<rparr>
      = investor largeCap
   \<and> 0 < balance \<lparr> sender = PublicKey 1 False, blockchainLength = 150, balance = 600 \<rparr>
   \<and> deadline largeCap
      \<le> blockchainLength \<lparr> sender = PublicKey 1 False, blockchainLength = 150, balance = 600 \<rparr>
   \<and> withdrawnCnt largeCap = 0
   \<and> \<not> succeeds (withdraw largeCap
          \<lparr> sender = PublicKey 1 False, blockchainLength = 150, balance = 600 \<rparr>)
   \<and> rejected (withdraw largeCap
          \<lparr> sender = PublicKey 1 False, blockchainLength = 150, balance = 600 \<rparr>) Overflow"
  by (simp add: largeCap_def succeeds_def rejected_def withdraw_eval)

text \<open>
  C3, amended. \<^verbatim>\<open>withdraw()\<close> succeeds exactly when the caller is the investor, the balance
  is positive, the height is at least the deadline, the counter is 0 or the blocks since the
  deadline are at least 200 times the counter, and the hard cap times the percentage (20 at
  counter 0, else 10) fits in 64 bits. A call that fails one of the first three checks is
  rejected with its reason, the first failing check deciding; one that fails the schedule is
  rejected with \<^verbatim>\<open>Withdrawal not allowed\<close> when 200 times the counter fits in 32 bits and by the
  range check of that product otherwise; one that meets the four conditions with a product
  of hard cap and percentage beyond 64 bits is rejected by the range check. So nobody but
  the investor can withdraw, and nobody can before the deadline.
\<close>

theorem withdraw_succeeds_iff_in_range:
  "(succeeds (withdraw this c) \<longleftrightarrow>
      sender c = investor this \<and> 0 < balance c \<and> deadline this \<le> blockchainLength c \<and>
      (withdrawnCnt this = 0 \<or>
       unat (withdrawnCnt this) * 200 \<le> unat (blockchainLength c) - unat (deadline this)) \<and>
      unat (hardCap this) * (if withdrawnCnt this = 0 then 20 else 10) < 2 ^ 64)
   \<and> (sender c \<noteq> investor this \<longrightarrow>
        rejected (withdraw this c) (AssertionFailed ''Only investor can withdraw''))
   \<and> (sender c = investor this \<and> \<not> 0 < balance c \<longrightarrow>
        rejected (withdraw this c) (AssertionFailed ''No balance to withdraw''))
   \<and> (sender c = investor this \<and> 0 < balance c \<and> \<not> deadline this \<le> blockchainLength c \<longrightarrow>
        rejected (withdraw this c) (AssertionFailed ''Deadline reached''))
   \<and> (sender c = investor this \<and> 0 < balance c \<and> deadline this \<le> blockchainLength c \<and>
      withdrawnCnt this \<noteq> 0 \<and> unat (withdrawnCnt this) * 200 < 2 ^ 32 \<and>
      \<not> unat (withdrawnCnt this) * 200 \<le> unat (blockchainLength c) - unat (deadline this) \<longrightarrow>
        rejected (withdraw this c) (AssertionFailed ''Withdrawal not allowed''))
   \<and> (sender c = investor this \<and> 0 < balance c \<and> deadline this \<le> blockchainLength c \<and>
      \<not> unat (withdrawnCnt this) * 200 < 2 ^ 32 \<longrightarrow>
        rejected (withdraw this c) Overflow)
   \<and> (sender c = investor this \<and> 0 < balance c \<and> deadline this \<le> blockchainLength c \<and>
      (withdrawnCnt this = 0 \<or>
       unat (withdrawnCnt this) * 200 \<le> unat (blockchainLength c) - unat (deadline this)) \<and>
      \<not> unat (hardCap this) * (if withdrawnCnt this = 0 then 20 else 10) < 2 ^ 64 \<longrightarrow>
        rejected (withdraw this c) Overflow)
   \<and> (sender c \<noteq> investor this \<longrightarrow> \<not> succeeds (withdraw this c))
   \<and> (blockchainLength c < deadline this \<longrightarrow> \<not> succeeds (withdraw this c))"
proof -
  have not_allowed:
    "rejected (withdraw this c) (AssertionFailed ''Withdrawal not allowed'')"
    if "sender c = investor this" "0 < balance c" "deadline this \<le> blockchainLength c"
       "withdrawnCnt this \<noteq> 0" "unat (withdrawnCnt this) * 200 < 2 ^ 32"
       "\<not> unat (withdrawnCnt this) * 200 \<le> unat (blockchainLength c) - unat (deadline this)"
    using that interval_check [OF that(3) that(5)]
    by (simp add: rejected_def withdraw_eval)
  have cap_overflow: "rejected (withdraw this c) Overflow"
    if "sender c = investor this" "0 < balance c" "deadline this \<le> blockchainLength c"
       "withdrawnCnt this = 0 \<or>
        unat (withdrawnCnt this) * 200 \<le> unat (blockchainLength c) - unat (deadline this)"
       "\<not> unat (hardCap this) * (if withdrawnCnt this = 0 then 20 else 10) < 2 ^ 64"
  proof (cases "withdrawnCnt this = 0")
    case True
    then show ?thesis using that by (simp add: rejected_def withdraw_eval)
  next
    case False
    with that(4) have iv:
      "unat (withdrawnCnt this) * 200 \<le> unat (blockchainLength c) - unat (deadline this)"
      by simp
    note small = interval_small [OF iv]
    show ?thesis
      using that(1,2,3,5) False iv small interval_check [OF that(3) small(1)]
      by (simp add: rejected_def withdraw_eval)
  qed
  show ?thesis
    using not_allowed cap_overflow
    by (simp add: succeeds_withdraw) (auto simp add: rejected_def withdraw_eval)
qed

theorem withdraw_succeeds_iff_in_range_witness:
  "succeeds (withdraw scenario
      \<lparr> sender = PublicKey 1 False, blockchainLength = 150, balance = 1000 \<rparr>)
   \<and> succeeds (withdraw (scenario\<lparr> withdrawnCnt := 1 \<rparr>)
      \<lparr> sender = PublicKey 1 False, blockchainLength = 350, balance = 800 \<rparr>)
   \<and> rejected (withdraw scenario \<lparr> sender = backer, blockchainLength = 150, balance = 1000 \<rparr>)
        (AssertionFailed ''Only investor can withdraw'')
   \<and> rejected (withdraw scenario
        \<lparr> sender = PublicKey 1 False, blockchainLength = 150, balance = 0 \<rparr>)
        (AssertionFailed ''No balance to withdraw'')
   \<and> rejected (withdraw scenario
        \<lparr> sender = PublicKey 1 False, blockchainLength = 99, balance = 1000 \<rparr>)
        (AssertionFailed ''Deadline reached'')
   \<and> rejected (withdraw (scenario\<lparr> withdrawnCnt := 1 \<rparr>)
        \<lparr> sender = PublicKey 1 False, blockchainLength = 200, balance = 800 \<rparr>)
        (AssertionFailed ''Withdrawal not allowed'')
   \<and> rejected (withdraw (scenario\<lparr> withdrawnCnt := 21474837 \<rparr>)
        \<lparr> sender = PublicKey 1 False, blockchainLength = 4294967295, balance = 800 \<rparr>)
        Overflow
   \<and> rejected (withdraw largeCap
        \<lparr> sender = PublicKey 1 False, blockchainLength = 150, balance = 600 \<rparr>) Overflow"
  using
    withdraw_succeeds_iff_in_range [of scenario
      "\<lparr> sender = PublicKey 1 False, blockchainLength = 150, balance = 1000 \<rparr>"]
    withdraw_succeeds_iff_in_range [of "scenario\<lparr> withdrawnCnt := 1 \<rparr>"
      "\<lparr> sender = PublicKey 1 False, blockchainLength = 350, balance = 800 \<rparr>"]
    withdraw_succeeds_iff_in_range [of scenario
      "\<lparr> sender = backer, blockchainLength = 150, balance = 1000 \<rparr>"]
    withdraw_succeeds_iff_in_range [of scenario
      "\<lparr> sender = PublicKey 1 False, blockchainLength = 150, balance = 0 \<rparr>"]
    withdraw_succeeds_iff_in_range [of scenario
      "\<lparr> sender = PublicKey 1 False, blockchainLength = 99, balance = 1000 \<rparr>"]
    withdraw_succeeds_iff_in_range [of "scenario\<lparr> withdrawnCnt := 1 \<rparr>"
      "\<lparr> sender = PublicKey 1 False, blockchainLength = 200, balance = 800 \<rparr>"]
    withdraw_succeeds_iff_in_range [of "scenario\<lparr> withdrawnCnt := 21474837 \<rparr>"
      "\<lparr> sender = PublicKey 1 False, blockchainLength = 4294967295, balance = 800 \<rparr>"]
    withdraw_succeeds_iff_in_range [of largeCap
      "\<lparr> sender = PublicKey 1 False, blockchainLength = 150, balance = 600 \<rparr>"]
  by (simp add: scenario_def backer_def largeCap_def)

text \<open>
  C4. A successful \<^verbatim>\<open>withdraw\<close> at counter 0 issues one transfer, to the investor, of the hard
  cap times 20 divided by 100, rounded down, and leaves the counter at 1. The percentage is
  chosen from the counter as read before the increment: \<^verbatim>\<open>ensureWithdraw\<close> returns 20 with
  the write of 1 already pending.
\<close>

theorem first_withdraw_pays_20_percent:
  assumes "succeeds (withdraw this c)" and "withdrawnCnt this = 0"
  shows "transfers (committed (withdraw this c)) =
           [FromContract (investor this) (hardCap this * 20 div 100)]
       \<and> unat (hardCap this * 20 div 100) = unat (hardCap this) * 20 div 100
       \<and> emitted (committed (withdraw this c)) =
           [WithdrawnEvent (investor this) (hardCap this * 20 div 100) (blockchainLength c)]
       \<and> setWithdrawnCnt (committed (withdraw this c)) = Some 1
       \<and> withdrawnCnt (exec this (c, Withdraw)) = 1
       \<and> ensureWithdraw this c noUpdate = (Inr 20, noUpdate\<lparr> setWithdrawnCnt := Some 1 \<rparr>)"
proof -
  from assms have inv: "sender c = investor this"
    and funded: "0 < balance c"
    and le: "deadline this \<le> blockchainLength c"
    and fits: "unat (hardCap this) * 20 < 2 ^ 64"
    by (simp_all add: succeeds_withdraw)
  have ens: "ensureWithdraw this c noUpdate = (Inr 20, noUpdate\<lparr> setWithdrawnCnt := Some 1 \<rparr>)"
    using assms(2) inv funded le
    by (simp add: ensureWithdraw_def incrementWithdrawal_def prov_defs Let_def)
  have "unat (hardCap this * 20 div 100) = unat (hardCap this) * unat (20 :: UInt64) div 100"
    using fits by (intro unat_share) simp
  then have share: "unat (hardCap this * 20 div 100) = unat (hardCap this) * 20 div 100"
    by simp
  show ?thesis
    using assms(2) inv share ens
    by (simp add: withdraw_committed [OF assms(1)] exec_withdraw_ok [OF assms(1)])
qed

theorem first_withdraw_pays_20_percent_witness:
  "succeeds (withdraw scenario \<lparr> sender = PublicKey 1 False, blockchainLength = 150,
                                  balance = 1000 \<rparr>)
   \<and> withdrawnCnt scenario = 0
   \<and> transfers (committed (withdraw scenario
        \<lparr> sender = PublicKey 1 False, blockchainLength = 150, balance = 1000 \<rparr>)) =
        [FromContract (PublicKey 1 False) 200]
   \<and> withdrawnCnt (exec scenario
        (\<lparr> sender = PublicKey 1 False, blockchainLength = 150, balance = 1000 \<rparr>, Withdraw)) = 1"
proof -
  have ok: "succeeds (withdraw scenario
              \<lparr> sender = PublicKey 1 False, blockchainLength = 150, balance = 1000 \<rparr>)"
    by (simp add: succeeds_withdraw scenario_def)
  have first: "withdrawnCnt scenario = 0"
    by (simp add: scenario_def)
  show ?thesis
    using ok first first_withdraw_pays_20_percent [OF ok first]
    by (simp add: scenario_def)
qed

text \<open>
  C5. For \<open>N \<ge> 2\<close>, a successful \<^verbatim>\<open>withdraw\<close> at counter \<open>N - 1\<close> issues one transfer, to the
  investor, of the hard cap times 10 divided by 100, rounded down; it succeeds only at a
  height with at least \<open>(N - 1) * 200\<close> blocks since the deadline, and leaves the counter
  at \<open>N\<close>.
\<close>

theorem later_withdraw_pays_10_percent:
  assumes "succeeds (withdraw this c)" and "unat (withdrawnCnt this) = N - 1" and "2 \<le> N"
  shows "transfers (committed (withdraw this c)) =
           [FromContract (investor this) (hardCap this * 10 div 100)]
       \<and> unat (hardCap this * 10 div 100) = unat (hardCap this) * 10 div 100
       \<and> emitted (committed (withdraw this c)) =
           [WithdrawnEvent (investor this) (hardCap this * 10 div 100) (blockchainLength c)]
       \<and> unat (deadline this) \<le> unat (blockchainLength c)
       \<and> (N - 1) * 200 \<le> unat (blockchainLength c) - unat (deadline this)
       \<and> unat (withdrawnCnt (exec this (c, Withdraw))) = N"
proof -
  from assms(2,3) have nz: "withdrawnCnt this \<noteq> 0"
    by (auto simp add: unat_eq_0 [symmetric] simp del: unat_eq_0)
  from assms(1) nz have inv: "sender c = investor this"
    and le: "deadline this \<le> blockchainLength c"
    and iv: "unat (withdrawnCnt this) * 200 \<le> unat (blockchainLength c) - unat (deadline this)"
    and fits: "unat (hardCap this) * 10 < 2 ^ 64"
    by (simp_all add: succeeds_withdraw)
  have "unat (hardCap this * 10 div 100) = unat (hardCap this) * unat (10 :: UInt64) div 100"
    using fits by (intro unat_share) simp
  then have share: "unat (hardCap this * 10 div 100) = unat (hardCap this) * 10 div 100"
    by simp
  have cnt: "unat (withdrawnCnt this + 1) = N"
    using withdrawnCnt_incremented [OF withdraw_counter_in_range [OF assms(1)]] assms(2,3)
    by simp
  have le': "unat (deadline this) \<le> unat (blockchainLength c)"
    using le by (simp add: word_le_nat_alt)
  show ?thesis
    using nz inv share iv le' cnt assms(2)
    by (simp add: withdraw_committed [OF assms(1)] exec_withdraw_ok [OF assms(1)])
qed

theorem later_withdraw_pays_10_percent_witness:
  "succeeds (withdraw (scenario\<lparr> withdrawnCnt := 1 \<rparr>)
      \<lparr> sender = PublicKey 1 False, blockchainLength = 350, balance = 800 \<rparr>)
   \<and> unat (withdrawnCnt (scenario\<lparr> withdrawnCnt := 1 \<rparr>)) = 2 - 1
   \<and> (2::nat) \<le> 2
   \<and> transfers (committed (withdraw (scenario\<lparr> withdrawnCnt := 1 \<rparr>)
        \<lparr> sender = PublicKey 1 False, blockchainLength = 350, balance = 800 \<rparr>)) =
        [FromContract (PublicKey 1 False) 100]
   \<and> unat (withdrawnCnt (exec (scenario\<lparr> withdrawnCnt := 1 \<rparr>)
        (\<lparr> sender = PublicKey 1 False, blockchainLength = 350, balance = 800 \<rparr>, Withdraw))) = 2"
proof -
  have ok: "succeeds (withdraw (scenario\<lparr> withdrawnCnt := 1 \<rparr>)
              \<lparr> sender = PublicKey 1 False, blockchainLength = 350, balance = 800 \<rparr>)"
    by (simp add: succeeds_withdraw scenario_def)
  have second: "unat (withdrawnCnt (scenario\<lparr> withdrawnCnt := 1 \<rparr>)) = 2 - 1"
    by (simp add: scenario_def)
  have two: "(2::nat) \<le> 2" by simp
  show ?thesis
    using ok second later_withdraw_pays_10_percent [OF ok second two]
    by (simp add: scenario_def)
qed

section \<open>The persisted fields over sequences of calls\<close>

lemma deploy_committed:
  "committed (deploy c d m h) =
     \<lparr> setInvestor = Some (sender c), setDeadline = Some d, setMinimumInvestment = Some m,
       setHardCap = Some h, setWithdrawnCnt = Some 0, transfers = [],
       emitted = [DeployEvent (sender c) d m h (blockchainLength c)] \<rparr>"
  by (simp add: committed_def deploy_def andThen_def investor_set_def deadline_set_def
      minimumInvestment_set_def hardCap_set_def withdrawnCnt_set_def emitEvent_def noUpdate_def)

lemma writeState_noUpdate: "writeState this noUpdate = this"
  by (simp add: writeState_def noUpdate_def)

lemma committed_rejected:
  "\<not> succeeds m \<Longrightarrow> committed m = noUpdate"
  by (cases "m noUpdate") (auto simp add: succeeds_def committed_def split: sum.splits)

lemma exec_rejected:
  "\<not> succeeds (invoke this c call) \<Longrightarrow> exec this (c, call) = this"
  by (simp add: exec_def committed_rejected writeState_noUpdate)

lemma exec_contribute: "exec this (c, Contribute amount) = this"
proof (cases "succeeds (contribute this c amount)")
  case True
  then show ?thesis
    by (simp add: exec_def contribute_committed writeState_def noUpdate_def)
next
  case False
  then show ?thesis by (simp add: exec_rejected)
qed

lemma exec_withdraw:
  "exec this (c, Withdraw) =
     (if succeeds (withdraw this c) then this\<lparr> withdrawnCnt := withdrawnCnt this + 1 \<rparr>
      else this)"
  by (simp add: exec_withdraw_ok exec_rejected)

lemma exec_withdrawnCnt:
  "unat (withdrawnCnt (exec this tx)) =
     unat (withdrawnCnt this)
       + (if snd tx = Withdraw \<and> succeeds (withdraw this (fst tx)) then 1 else 0)"
proof (cases tx)
  case (Pair c call)
  show ?thesis
  proof (cases call)
    case (Contribute amount)
    with Pair show ?thesis by (simp add: exec_contribute)
  next
    case Withdraw
    with Pair show ?thesis
      using withdrawnCnt_incremented [OF withdraw_counter_in_range, of this c]
      by (simp add: exec_withdraw)
  qed
qed

lemma run_withdrawnCnt:
  "unat (withdrawnCnt (foldl exec this txs)) =
     unat (withdrawnCnt this) + successfulWithdraws this txs"
proof (induction txs arbitrary: this)
  case Nil
  show ?case by simp
next
  case (Cons tx txs)
  have "unat (withdrawnCnt (foldl exec (exec this tx) txs)) =
          unat (withdrawnCnt (exec this tx)) + successfulWithdraws (exec this tx) txs"
    by (rule Cons.IH)
  then show ?case by (simp add: exec_withdrawnCnt)
qed

text \<open>
  C6. \<^verbatim>\<open>deploy\<close> leaves the counter at 0. A \<^verbatim>\<open>contribute\<close> call and a rejected \<^verbatim>\<open>withdraw\<close> leave
  it as it is, a successful \<^verbatim>\<open>withdraw\<close> adds exactly 1 (without wrapping around). So after
  any sequence of calls the counter is its value before plus the number of successful
  withdrawals of the sequence, and has not decreased.
\<close>

theorem withdrawnCnt_counts_withdrawals:
  "withdrawnCnt (writeState this0 (committed (deploy c0 d m h))) = 0
   \<and> withdrawnCnt (exec this (c, Contribute amount)) = withdrawnCnt this
   \<and> (if succeeds (withdraw this c)
        then unat (withdrawnCnt (exec this (c, Withdraw))) = unat (withdrawnCnt this) + 1
        else withdrawnCnt (exec this (c, Withdraw)) = withdrawnCnt this)
   \<and> unat (withdrawnCnt (foldl exec this txs)) =
        unat (withdrawnCnt this) + successfulWithdraws this txs
   \<and> unat (withdrawnCnt this) \<le> unat (withdrawnCnt (foldl exec this txs))
   \<and> unat (withdrawnCnt (foldl exec (writeState this0 (committed (deploy c0 d m h))) txs)) =
        successfulWithdraws (writeState this0 (committed (deploy c0 d m h))) txs"
proof -
  have zero: "withdrawnCnt (writeState this0 (committed (deploy c0 d m h))) = 0"
    by (simp add: deploy_committed writeState_def)
  have step: "unat (withdrawnCnt (exec this (c, Withdraw))) =
                unat (withdrawnCnt this) + (if succeeds (withdraw this c) then 1 else 0)"
    using exec_withdrawnCnt [of this "(c, Withdraw)"] by simp
  have keep: "\<not> succeeds (withdraw this c) \<Longrightarrow>
                withdrawnCnt (exec this (c, Withdraw)) = withdrawnCnt this"
    by (simp add: exec_withdraw)
  show ?thesis
    using zero step keep
      run_withdrawnCnt [of "writeState this0 (committed (deploy c0 d m h))" txs]
    by (simp add: exec_contribute run_withdrawnCnt)
qed

theorem withdrawnCnt_counts_withdrawals_witness:
  "successfulWithdraws scenario history = 2
   \<and> unat (withdrawnCnt (foldl exec scenario history)) = 2
   \<and> withdrawnCnt (writeState scenario (committed (deploy
        \<lparr> sender = PublicKey 1 False, blockchainLength = 1, balance = 0 \<rparr> 100 10 1000))) = 0"
proof -
  have n: "successfulWithdraws scenario history = 2"
    by (simp add: history_def exec_contribute exec_withdraw succeeds_withdraw scenario_def)
  show ?thesis
    using n withdrawnCnt_counts_withdrawals [of scenario
        "\<lparr> sender = PublicKey 1 False, blockchainLength = 1, balance = 0 \<rparr>" 100 10 1000
        scenario "\<lparr> sender = backer, blockchainLength = 50, balance = 0 \<rparr>" 600 history]
    by (simp add: scenario_def)
qed

lemma exec_fixed:
  "investor (exec this tx) = investor this \<and> deadline (exec this tx) = deadline this \<and>
   minimumInvestment (exec this tx) = minimumInvestment this \<and>
   hardCap (exec this tx) = hardCap this"
proof (cases tx)
  case (Pair c call)
  then show ?thesis
    by (cases call) (simp_all add: exec_contribute exec_withdraw)
qed

lemma run_fixed:
  "investor (foldl exec this txs) = investor this \<and>
   deadline (foldl exec this txs) = deadline this \<and>
   minimumInvestment (foldl exec this txs) = minimumInvestment this \<and>
   hardCap (foldl exec this txs) = hardCap this"
  by (induction txs arbitrary: this) (simp_all add: exec_fixed)

lemma invoke_writes:
  "setInvestor (snd (invoke this c call u)) = setInvestor u \<and>
   setDeadline (snd (invoke this c call u)) = setDeadline u \<and>
   setMinimumInvestment (snd (invoke this c call u)) = setMinimumInvestment u \<and>
   setHardCap (snd (invoke this c call u)) = setHardCap u"
  by (cases call) (simp_all add: contribute_eval withdraw_eval)

text \<open>
  C7. Whether it succeeds or is rejected, a \<^verbatim>\<open>contribute\<close> or \<^verbatim>\<open>withdraw\<close> call leaves the
  investor, the deadline, the minimum investment and the hard cap as they are, and never
  even writes them; \<^verbatim>\<open>contribute\<close> writes no field at all. After any sequence of calls the
  state differs from the one before in the counter only.
\<close>

theorem configuration_is_immutable:
  "investor (exec this (c, call)) = investor this
   \<and> deadline (exec this (c, call)) = deadline this
   \<and> minimumInvestment (exec this (c, call)) = minimumInvestment this
   \<and> hardCap (exec this (c, call)) = hardCap this
   \<and> setInvestor (snd (invoke this c call noUpdate)) = None
   \<and> setDeadline (snd (invoke this c call noUpdate)) = None
   \<and> setMinimumInvestment (snd (invoke this c call noUpdate)) = None
   \<and> setHardCap (snd (invoke this c call noUpdate)) = None
   \<and> setWithdrawnCnt (snd (contribute this c amount noUpdate)) = None
   \<and> foldl exec this txs = this\<lparr> withdrawnCnt := withdrawnCnt (foldl exec this txs) \<rparr>"
proof -
  have run: "foldl exec this txs = this\<lparr> withdrawnCnt := withdrawnCnt (foldl exec this txs) \<rparr>"
    using run_fixed [of this txs] by (intro CrowdFunding.equality) simp_all
  have none: "setInvestor noUpdate = None" "setDeadline noUpdate = None"
    "setMinimumInvestment noUpdate = None" "setHardCap noUpdate = None"
    "setWithdrawnCnt noUpdate = None"
    by (simp_all add: noUpdate_def)
  have contrib: "setWithdrawnCnt (snd (contribute this c amount noUpdate)) = None"
    by (simp add: contribute_eval none)
  show ?thesis
    using run contrib exec_fixed [of this "(c, call)"] invoke_writes [of this c call noUpdate]
    by (simp add: none)
qed

theorem configuration_is_immutable_witness:
  "foldl exec scenario history = scenario\<lparr> withdrawnCnt := 2 \<rparr>
   \<and> hardCap (exec scenario
        (\<lparr> sender = PublicKey 1 False, blockchainLength = 150, balance = 1000 \<rparr>, Withdraw)) = 1000
   \<and> deadline (exec scenario
        (\<lparr> sender = PublicKey 1 False, blockchainLength = 150, balance = 1000 \<rparr>, Withdraw)) = 100"
proof -
  have n: "withdrawnCnt (foldl exec scenario history) = 2"
    by (simp add: history_def exec_contribute exec_withdraw succeeds_withdraw scenario_def)
  show ?thesis
    using n configuration_is_immutable [of scenario
        "\<lparr> sender = PublicKey 1 False, blockchainLength = 150, balance = 1000 \<rparr>" Withdraw
        600 history]
    by (simp add: scenario_def)
qed

section \<open>Calls on a violated precondition\<close>

text \<open>
  C8 does not hold of the code. At height 101, after the deadline of 100, a backer calls
  \<^verbatim>\<open>contribute(600)\<close>. The helper finds the violation, and the call still returns with a
  transfer of 600 to the campaign and a \<^verbatim>\<open>Contributed\<close> event: the balance and the event log
  change on a violated precondition.
\<close>

theorem violated_contribute_has_effects:
  "fst (ensureContribution scenario \<lparr> sender = backer, blockchainLength = 101, balance = 0 \<rparr>
          backer 600 noUpdate) = Inl (AssertionFailed ''Deadline reached'')
   \<and> contribute scenario \<lparr> sender = backer, blockchainLength = 101, balance = 0 \<rparr> 600 noUpdate =
       (Inr (), noUpdate\<lparr> transfers := [ToContract backer 600],
                          emitted := [ContributedEvent backer 600 101] \<rparr>)
   \<and> transfers (committed (contribute scenario
        \<lparr> sender = backer, blockchainLength = 101, balance = 0 \<rparr> 600)) = [ToContract backer 600]
   \<and> balanceChange (transfers (committed (contribute scenario
        \<lparr> sender = backer, blockchainLength = 101, balance = 0 \<rparr> 600))) = 600
   \<and> emitted (committed (contribute scenario
        \<lparr> sender = backer, blockchainLength = 101, balance = 0 \<rparr> 600)) =
        [ContributedEvent backer 600 101]"
  by (simp add: ensureContribution_eval committed_def contribute_eval noUpdate_def
      scenario_def backer_def)

text \<open>
  A call that throws commits nothing, and \<^verbatim>\<open>withdraw\<close> has made no write, transfer or event
  when one of its assertions throws.
\<close>

lemma thrown_call_commits_nothing:
  "\<not> succeeds (invoke this c call) \<Longrightarrow>
     committed (invoke this c call) = noUpdate \<and> exec this (c, call) = this"
  by (simp add: committed_rejected exec_rejected)

lemma withdraw_assertion_before_effects:
  "fst (withdraw this c u) = Inl (AssertionFailed msg) \<Longrightarrow> snd (withdraw this c u) = u"
  by (simp add: withdraw_eval split: if_splits)

section \<open>The withdrawn amount and the balance\<close>

text \<open>
  C9. The amount a successful \<^verbatim>\<open>withdraw\<close> transfers is the hard cap times 20 (at counter 0)
  or 10 (afterwards), divided by 100: it depends on the hard cap and on the counter before
  the increment only. The balance only has to be positive, so with any other positive
  balance the call succeeds as well and transfers the same amount, and the amount can be
  more than the balance.
\<close>

theorem withdraw_amount_ignores_balance:
  "(succeeds (withdraw this c) \<longrightarrow>
      transfers (committed (withdraw this c)) =
        [FromContract (sender c)
           (hardCap this * (if withdrawnCnt this = 0 then 20 else 10) div 100)])
   \<and> (succeeds (withdraw this c) \<and> 0 < b \<longrightarrow>
        succeeds (withdraw this (c\<lparr> balance := b \<rparr>)) \<and>
        transfers (committed (withdraw this (c\<lparr> balance := b \<rparr>))) =
          transfers (committed (withdraw this c)))
   \<and> (\<exists>this' c' a. succeeds (withdraw this' c') \<and>
        transfers (committed (withdraw this' c')) = [FromContract (sender c') a] \<and>
        balance c' < a)"
proof -
  have any: "succeeds (withdraw this (c\<lparr> balance := b \<rparr>))"
    if "succeeds (withdraw this c)" "0 < b"
    using that by (simp add: succeeds_withdraw)
  have ex: "succeeds (withdraw scenario
              \<lparr> sender = PublicKey 1 False, blockchainLength = 150, balance = 1 \<rparr>)"
    by (simp add: succeeds_withdraw scenario_def)
  have "transfers (committed (withdraw scenario
          \<lparr> sender = PublicKey 1 False, blockchainLength = 150, balance = 1 \<rparr>)) =
          [FromContract (sender \<lparr> sender = PublicKey 1 False, blockchainLength = 150,
             balance = 1 \<rparr>) 200]
        \<and> balance \<lparr> sender = PublicKey 1 False, blockchainLength = 150, balance = 1 \<rparr>
            < (200 :: UInt64)"
    using withdraw_committed [OF ex] by (simp add: scenario_def)
  with ex have "\<exists>this' c' a. succeeds (withdraw this' c') \<and>
        transfers (committed (withdraw this' c')) = [FromContract (sender c') a] \<and>
        balance c' < a"
    by blast
  then show ?thesis
    using any by (auto simp add: withdraw_committed)
qed

theorem withdraw_amount_ignores_balance_witness:
  "succeeds (withdraw scenario
      \<lparr> sender = PublicKey 1 False, blockchainLength = 150, balance = 1 \<rparr>)
   \<and> transfers (committed (withdraw scenario
        \<lparr> sender = PublicKey 1 False, blockchainLength = 150, balance = 1 \<rparr>)) =
        [FromContract (PublicKey 1 False) 200]
   \<and> transfers (committed (withdraw scenario
        \<lparr> sender = PublicKey 1 False, blockchainLength = 150, balance = 1000 \<rparr>)) =
        [FromContract (PublicKey 1 False) 200]"
proof -
  have ok: "succeeds (withdraw scenario
              \<lparr> sender = PublicKey 1 False, blockchainLength = 150, balance = 1 \<rparr>)"
    by (simp add: succeeds_withdraw scenario_def)
  show ?thesis
    using ok withdraw_amount_ignores_balance [of scenario
        "\<lparr> sender = PublicKey 1 False, blockchainLength = 150, balance = 1 \<rparr>" 1000]
    by (simp add: scenario_def)
qed

section \<open>Subtractions\<close>

text \<open>
  The subtraction of \<^verbatim>\<open>withdraw\<close>, \<^verbatim>\<open>currentTime.sub(deadline)\<close>, runs after the assertion that
  the height is at least the deadline has passed: \<^verbatim>\<open>withdraw\<close> never fails by underflow.
\<close>

lemma withdraw_never_underflows:
  "fst (ensureWithdraw this c u) \<noteq> Inl Underflow \<and> fst (withdraw this c u) \<noteq> Inl Underflow"
proof -
  have "fst (ensureWithdraw this c u) \<noteq> Inl Underflow"
    by (simp add: ensureWithdraw_def incrementWithdrawal_def prov_defs Let_def)
  moreover have "fst (withdraw this c u) \<noteq> Inl Underflow"
    by (simp add: withdraw_eval)
  ultimately show ?thesis by simp
qed

text \<open>
  C10 does not hold of the code for \<^verbatim>\<open>contribute\<close>. With a balance of 1001 above the hard
  cap of 1000 the helper fails its assertion that the balance is below the hard cap, the
  call goes on, and \<^verbatim>\<open>hardCap.sub(balance)\<close> in \<^verbatim>\<open>calculateAmount\<close> underflows: the range
  check of the subtraction is what rejects the call.
\<close>

theorem contribute_subtraction_underflows:
  "fst (ensureContribution scenario \<lparr> sender = backer, blockchainLength = 60, balance = 1001 \<rparr>
          backer 500 noUpdate) = Inl (AssertionFailed ''HardCap reached'')
   \<and> fst (UInt_sub (hardCap scenario)
          (balance \<lparr> sender = backer, blockchainLength = 60, balance = 1001 \<rparr>) noUpdate) =
        Inl Underflow
   \<and> fst (calculateAmount scenario \<lparr> sender = backer, blockchainLength = 60, balance = 1001 \<rparr>
          500 noUpdate) = Inl Underflow
   \<and> contribute scenario \<lparr> sender = backer, blockchainLength = 60, balance = 1001 \<rparr> 500 noUpdate =
       (Inl Underflow, noUpdate)
   \<and> rejected (contribute scenario \<lparr> sender = backer, blockchainLength = 60, balance = 1001 \<rparr> 500)
       Underflow"
  by (simp add: ensureContribution_eval calculateAmount_eval contribute_eval rejected_def
      UInt_sub_def reject_def scenario_def backer_def)

end
